theory Spec2Isabelle
  imports Complex_Main "HOL-Library.AList"
begin

section \<open>Risk-managed position engine: data model\<close>

text \<open>
  The embedding follows \<^verbatim>\<open>app/services/risk_management_service.py\<close> and
  \<^verbatim>\<open>app/services/portfolio_service.py\<close>. Python floats and the Decimal columns read
  through \<^verbatim>\<open>float(...)\<close> are idealised as real numbers; numeric columns that the
  services convert with \<^verbatim>\<open>float(...)\<close> are taken to be non-null unless the code tests
  them. A dictionary result with a \<^verbatim>\<open>success\<close> flag is a sum: \<open>Inl\<close> carries the
  error, \<open>Inr\<close> the payload. Record fields carry a short prefix of their class, since
  field names are global.
\<close>

datatype py_exception =
  ZeroDivisionError | AttributeError | TypeError | ValueError | IndexError

datatype error =
    PortfolioNotFound
  | PositionNotFound
  | CouldNotCalculateStopLoss
  | CouldNotCalculateTakeProfit
  | CouldNotCalculateNewStopLoss
  | UnknownAction string
  | CouldNotGetPortfolioSummary
  | Raised py_exception

text \<open>Truthiness of an optional float: \<^verbatim>\<open>None\<close> and \<^verbatim>\<open>0.0\<close> are false.\<close>

fun truthy :: "real option \<Rightarrow> bool" where
  "truthy None = False"
| "truthy (Some v) = (v \<noteq> 0)"

text \<open>\<^verbatim>\<open>str.lower\<close> and \<^verbatim>\<open>str.upper\<close> on ASCII letters.\<close>

definition lower_char :: "char \<Rightarrow> char" where
  "lower_char c =
     (case map_of (zip ''ABCDEFGHIJKLMNOPQRSTUVWXYZ'' ''abcdefghijklmnopqrstuvwxyz'') c of
        Some d \<Rightarrow> d
      | None \<Rightarrow> c)"

definition lower :: "string \<Rightarrow> string" where
  "lower s = map lower_char s"

definition upper_char :: "char \<Rightarrow> char" where
  "upper_char c =
     (case map_of (zip ''abcdefghijklmnopqrstuvwxyz'' ''ABCDEFGHIJKLMNOPQRSTUVWXYZ'') c of
        Some d \<Rightarrow> d
      | None \<Rightarrow> c)"

definition upper :: "string \<Rightarrow> string" where
  "upper s = map upper_char s"

record portfolio =
  pf_id :: nat
  pf_user_id :: nat
  pf_total_value :: real
  pf_available_balance :: real

record user =
  user_id :: nat

record position =
  pos_id :: nat
  pos_portfolio_id :: nat
  pos_symbol :: string
  pos_exchange :: string
  pos_position_type :: string
  pos_status :: string
  pos_quantity :: real
  pos_entry_price :: real
  pos_current_price :: real
  pos_stop_loss_price :: "real option"
  pos_take_profit_price :: "real option"
  pos_exit_price :: "real option"
  pos_exit_time :: "nat option"

text \<open>The reason strings passed to the exit order, the last one with its percentage.\<close>

datatype exit_reason = StopLossTriggered | TakeProfitExecuted | PositionReducedBy real

record trade =
  tr_portfolio_id :: nat
  tr_symbol :: string
  tr_exchange :: string
  tr_trade_type :: string
  tr_quantity :: real
  tr_price :: real
  tr_status :: string
  tr_order_type :: string
  tr_notes :: exit_reason
  tr_timestamp :: nat

text \<open>The database session: the tables the risk service queries and commits to.\<close>

record db =
  db_portfolios :: "portfolio list"
  db_users :: "user list"
  db_positions :: "position list"
  db_trades :: "trade list"

text \<open>\<^verbatim>\<open>query(Portfolio).filter(Portfolio.id == portfolio_id).first()\<close>\<close>

definition query_portfolio :: "db \<Rightarrow> nat \<Rightarrow> portfolio option" where
  "query_portfolio d pid = find (\<lambda>p. pf_id p = pid) (db_portfolios d)"


definition query_position :: "db \<Rightarrow> nat \<Rightarrow> position option" where
  "query_position d i = find (\<lambda>p. pos_id p = i) (db_positions d)"

text \<open>
  \<^verbatim>\<open>query(Position).filter(Position.portfolio_id == portfolio_id,
  Position.status == 'active').all()\<close>
\<close>

definition active_positions :: "db \<Rightarrow> nat \<Rightarrow> position list" where
  "active_positions d pid =
     filter (\<lambda>p. pos_portfolio_id p = pid \<and> pos_status p = ''active'') (db_positions d)"

section \<open>Position sizing\<close>

record sizing =
  ps_position_size :: real
  ps_position_value :: real
  ps_risk_amount :: real
  ps_risk_percentage :: real
  ps_position_percentage :: real
  ps_required_capital :: real
  ps_available_balance :: real

text \<open>
  \<^verbatim>\<open>calculate_position_size\<close>. Every float division by zero raises
  \<^verbatim>\<open>ZeroDivisionError\<close>, which the enclosing \<^verbatim>\<open>except\<close> turns into a failure
  result; the divisions are checked in the order the source performs them.
\<close>

definition calculate_position_size ::
  "db \<Rightarrow> nat \<Rightarrow> string \<Rightarrow> real \<Rightarrow> real option \<Rightarrow> real \<Rightarrow> real \<Rightarrow> error + sizing" where
  "calculate_position_size d portfolio_id symbol entry_price stop_loss_price
       risk_percentage max_position_percentage =
     (case query_portfolio d portfolio_id of
        None \<Rightarrow> Inl PortfolioNotFound
      | Some portfolio \<Rightarrow>
          (let total_value = pf_total_value portfolio;
               available_balance = pf_available_balance portfolio;
               risk_amount = total_value * (risk_percentage / 100)
           in if \<not> truthy stop_loss_price \<and> entry_price * 0.02 = 0
              then Inl (Raised ZeroDivisionError)
              else
                (let position_size =
                       (case stop_loss_price of
                          None \<Rightarrow> risk_amount / (entry_price * 0.02)
                        | Some stop \<Rightarrow>
                            if stop \<noteq> 0
                            then (let price_risk = \<bar>entry_price - stop\<bar>
                                  in if price_risk > 0 then risk_amount / price_risk else 0)
                            else risk_amount / (entry_price * 0.02));
                     max_position_value = total_value * (max_position_percentage / 100)
                 in if entry_price = 0 then Inl (Raised ZeroDivisionError)
                    else
                      (let max_position_size = max_position_value / entry_price;
                           position_size = min position_size max_position_size;
                           required_capital = position_size * entry_price;
                           position_size =
                             (if required_capital > available_balance
                              then available_balance / entry_price * 0.95
                              else position_size);
                           position_value = position_size * entry_price
                       in if total_value = 0 then Inl (Raised ZeroDivisionError)
                          else Inr \<lparr>ps_position_size = position_size,
                                    ps_position_value = position_value,
                                    ps_risk_amount = risk_amount,
                                    ps_risk_percentage = (risk_amount / total_value) * 100,
                                    ps_position_percentage = (position_value / total_value) * 100,
                                    ps_required_capital = required_capital,
                                    ps_available_balance = available_balance\<rparr>))))"

section \<open>Stop-loss and take-profit levels\<close>

record stop_loss =
  sl_stop_loss_price :: real
  sl_risk_amount :: real
  sl_risk_percentage :: real
  sl_method :: string

definition calculate_stop_loss ::
  "real \<Rightarrow> string \<Rightarrow> string \<Rightarrow> real \<Rightarrow> real \<Rightarrow> real option \<Rightarrow> error + stop_loss" where
  "calculate_stop_loss entry_price position_type method percentage atr_multiplier
       support_resistance =
     (let stop_loss_price =
            (if method = ''percentage'' then
               (if lower position_type = ''long''
                then Some (entry_price * (1 - percentage / 100))
                else Some (entry_price * (1 + percentage / 100)))
             else if method = ''atr'' \<and> atr_multiplier \<noteq> 0 then
               (let estimated_atr = entry_price * 0.02
                in if lower position_type = ''long''
                   then Some (entry_price - estimated_atr * atr_multiplier)
                   else Some (entry_price + estimated_atr * atr_multiplier))
             else if method = ''support_resistance'' \<and> truthy support_resistance then
               support_resistance
             else None)
      in case stop_loss_price of
           None \<Rightarrow> Inl CouldNotCalculateStopLoss
         | Some stop \<Rightarrow>
             if stop \<noteq> 0 then
               (let risk_amount = \<bar>entry_price - stop\<bar>
                in if entry_price = 0 then Inl (Raised ZeroDivisionError)
                   else Inr \<lparr>sl_stop_loss_price = stop,
                             sl_risk_amount = risk_amount,
                             sl_risk_percentage = (risk_amount / entry_price) * 100,
                             sl_method = method\<rparr>)
             else Inl CouldNotCalculateStopLoss)"

record take_profit =
  tp_take_profit_price :: real
  tp_profit_amount :: real
  tp_profit_percentage :: real
  tp_risk_reward_ratio :: real

definition calculate_take_profit ::
  "real \<Rightarrow> string \<Rightarrow> real \<Rightarrow> real option \<Rightarrow> real option \<Rightarrow> error + take_profit" where
  "calculate_take_profit entry_price position_type risk_reward_ratio stop_loss_price
       target_percentage =
     (let take_profit_price =
            (case (if truthy target_percentage then target_percentage else None) of
               Some target \<Rightarrow>
                 (if lower position_type = ''long''
                  then Some (entry_price * (1 + target / 100))
                  else Some (entry_price * (1 - target / 100)))
             | None \<Rightarrow>
                 (case (if truthy stop_loss_price \<and> risk_reward_ratio \<noteq> 0
                        then stop_loss_price else None) of
                    Some stop \<Rightarrow>
                      (let risk_amount = \<bar>entry_price - stop\<bar>;
                           reward_amount = risk_amount * risk_reward_ratio
                       in if lower position_type = ''long''
                          then Some (entry_price + reward_amount)
                          else Some (entry_price - reward_amount))
                  | None \<Rightarrow> None))
      in case take_profit_price of
           None \<Rightarrow> Inl CouldNotCalculateTakeProfit
         | Some target_price \<Rightarrow>
             if target_price \<noteq> 0 then
               (let profit_amount = \<bar>target_price - entry_price\<bar>
                in if entry_price = 0 then Inl (Raised ZeroDivisionError)
                   else Inr \<lparr>tp_take_profit_price = target_price,
                             tp_profit_amount = profit_amount,
                             tp_profit_percentage = (profit_amount / entry_price) * 100,
                             tp_risk_reward_ratio = risk_reward_ratio\<rparr>)
             else Inl CouldNotCalculateTakeProfit)"

section \<open>Trailing stop, exit orders and risk actions\<close>

text \<open>
  \<^verbatim>\<open>_calculate_trailing_stop_loss\<close>. The branches are in the order of the source: the
  test \<^verbatim>\<open>profit_pct > 10\<close> comes before \<^verbatim>\<open>profit_pct > 20\<close>. A zero entry price
  raises in the division and the \<^verbatim>\<open>except\<close> clause returns \<^verbatim>\<open>None\<close>.
\<close>

definition calculate_trailing_stop_loss :: "position \<Rightarrow> real option" where
  "calculate_trailing_stop_loss position =
     (let current_price = pos_current_price position;
          entry_price = pos_entry_price position
      in if entry_price = 0 then None
         else if lower (pos_position_type position) = ''long'' then
           (let profit_pct = ((current_price - entry_price) / entry_price) * 100
            in if profit_pct > 10 then Some (entry_price * 1.02)
               else if profit_pct > 20 then Some (entry_price * 1.10)
               else None)
         else
           (let profit_pct = ((entry_price - current_price) / entry_price) * 100
            in if profit_pct > 10 then Some (entry_price * 0.98)
               else if profit_pct > 20 then Some (entry_price * 0.90)
               else None))"

text \<open>
  The local \<^verbatim>\<open>profit_pct\<close> of \<^verbatim>\<open>_calculate_trailing_stop_loss\<close>: the gain of the
  position in percent of its entry price, by side.
\<close>

definition profit_pct :: "position \<Rightarrow> real" where
  "profit_pct position =
     (if lower (pos_position_type position) = ''long''
      then ((pos_current_price position - pos_entry_price position)
              / pos_entry_price position) * 100
      else ((pos_entry_price position - pos_current_price position)
              / pos_entry_price position) * 100)"

text \<open>
  The success result of an exit order. Its \<^verbatim>\<open>trade_id\<close> is assigned by the database at
  commit and is not part of the model; the trade itself is appended to the trades table.
\<close>

record exit_result =
  er_quantity :: real
  er_price :: real
  er_reason :: exit_reason

text \<open>
  A mutated ORM object is written back to its row (the first one with its primary key)
  at \<^verbatim>\<open>commit\<close>.
\<close>

fun save_position :: "position \<Rightarrow> position list \<Rightarrow> position list" where
  "save_position p [] = []"
| "save_position p (q # qs) =
     (if pos_id q = pos_id p then p # qs else q # save_position p qs)"

text \<open>
  \<^verbatim>\<open>_execute_exit_order\<close>: the position after the exit, as the source assigns it.
  \<open>now\<close> stands for \<^verbatim>\<open>datetime.utcnow()\<close>.
\<close>

definition exit_position :: "nat \<Rightarrow> position \<Rightarrow> real \<Rightarrow> position" where
  "exit_position now position quantity =
     (let current_price = pos_current_price position
      in if quantity \<ge> pos_quantity position then
           position\<lparr>pos_status := ''closed'',
                    pos_exit_price := Some current_price,
                    pos_exit_time := Some now\<rparr>
         else
           position\<lparr>pos_quantity := pos_quantity position - quantity\<rparr>)"

definition exit_trade :: "nat \<Rightarrow> position \<Rightarrow> real \<Rightarrow> string \<Rightarrow> exit_reason \<Rightarrow> trade" where
  "exit_trade now position quantity order_type reason =
     \<lparr>tr_portfolio_id = pos_portfolio_id position,
      tr_symbol = pos_symbol position,
      tr_exchange = pos_exchange position,
      tr_trade_type = (if pos_position_type position = ''long'' then ''sell'' else ''buy''),
      tr_quantity = quantity,
      tr_price = pos_current_price position,
      tr_status = ''completed'',
      tr_order_type = order_type,
      tr_notes = reason,
      tr_timestamp = now\<rparr>"

definition execute_exit_order ::
  "db \<Rightarrow> nat \<Rightarrow> position \<Rightarrow> real \<Rightarrow> string \<Rightarrow> exit_reason \<Rightarrow> (error + exit_result) \<times> db" where
  "execute_exit_order d now position quantity order_type reason =
     (let current_price = pos_current_price position;
          position' = exit_position now position quantity;
          trade = exit_trade now position quantity order_type reason
      in (Inr \<lparr>er_quantity = quantity, er_price = current_price, er_reason = reason\<rparr>,
          d\<lparr>db_positions := save_position position' (db_positions d),
            db_trades := db_trades d @ [trade]\<rparr>))"




section \<open>Portfolio risk assessment\<close>

record position_risk =
  pr_symbol :: string
  pr_risk_percentage :: real
  pr_position_percentage :: real

text \<open>
  The warning and recommendation messages are format strings over a symbol or sector and
  one-decimal percentages; they are kept as constructors with their arguments.
\<close>

datatype warning =
    LargePosition string real
  | TotalRiskExceedsLimit real real
  | HighConcentration string real

datatype recommendation =
    ConsiderReducing string
  | ReduceSizesOrTightenStops
  | DiversifyAwayFrom string

text \<open>
  The report dictionary. The early return for a portfolio without active positions has
  no \<^verbatim>\<open>position_risks\<close>, \<^verbatim>\<open>sector_concentration\<close> and \<^verbatim>\<open>max_portfolio_risk\<close>
  keys: these fields are optional.
\<close>

record risk_report =
  rr_total_risk :: real
  rr_risk_level :: string
  rr_position_risks :: "position_risk list option"
  rr_sector_concentration :: "(string \<times> real) list option"
  rr_warnings :: "warning list"
  rr_recommendations :: "recommendation list"
  rr_max_portfolio_risk :: "real option"

text \<open>
  The loop over the active positions, with its four accumulators \<^verbatim>\<open>total_risk\<close>,
  \<^verbatim>\<open>position_risks\<close>, \<^verbatim>\<open>warnings\<close> and \<^verbatim>\<open>recommendations\<close>. It runs only with a
  nonzero total value (see \<open>check_portfolio_risk\<close>).
\<close>

fun assess_positions ::
  "real \<Rightarrow> position list
     \<Rightarrow> real \<times> position_risk list \<times> warning list \<times> recommendation list
     \<Rightarrow> real \<times> position_risk list \<times> warning list \<times> recommendation list" where
  "assess_positions total_value [] acc = acc"
| "assess_positions total_value (position # rest)
       (total_risk, position_risks, warnings, recommendations) =
     (let position_value = pos_quantity position * pos_current_price position;
          position_percentage = (position_value / total_value) * 100;
          position_risk =
            (case pos_stop_loss_price position of
               None \<Rightarrow> position_percentage * 0.02
             | Some stop \<Rightarrow>
                 if stop \<noteq> 0 then
                   (let risk_per_share = \<bar>pos_current_price position - stop\<bar>
                    in (risk_per_share * pos_quantity position / total_value) * 100)
                 else position_percentage * 0.02)
      in assess_positions total_value rest
           (total_risk + position_risk,
            position_risks @ [\<lparr>pr_symbol = pos_symbol position,
                                pr_risk_percentage = position_risk,
                                pr_position_percentage = position_percentage\<rparr>],
            (if position_percentage > 15
             then warnings @ [LargePosition (pos_symbol position) position_percentage]
             else warnings),
            (if position_percentage > 15
             then recommendations @ [ConsiderReducing (pos_symbol position)]
             else recommendations)))"

definition sectors :: "(string \<times> string list) list" where
  "sectors =
     [(''crypto'', [''BTC'', ''ETH'', ''ADA'', ''DOT'', ''LINK'', ''UNI'']),
      (''forex'', [''EUR'', ''GBP'', ''JPY'', ''AUD'', ''CAD'', ''CHF'']),
      (''commodities'', [''GOLD'', ''SILVER'', ''OIL'', ''GAS''])]"

text \<open>\<^verbatim>\<open>symbol.split('/')[0] if '/' in symbol else symbol[:3]\<close>\<close>

definition symbol_base :: "string \<Rightarrow> string" where
  "symbol_base symbol =
     (if CHR ''/'' \<in> set symbol then takeWhile (\<lambda>c. c \<noteq> CHR ''/'') symbol else take 3 symbol)"

fun sector_values_loop :: "position list \<Rightarrow> (string \<times> real) list \<Rightarrow> (string \<times> real) list" where
  "sector_values_loop [] sector_values = sector_values"
| "sector_values_loop (position # rest) sector_values =
     (let position_value = pos_quantity position * pos_current_price position;
          base = upper (symbol_base (pos_symbol position))
      in case find (\<lambda>entry. base \<in> set (snd entry)) sectors of
           Some entry \<Rightarrow>
             sector_values_loop rest
               (AList.map_entry (fst entry) (\<lambda>v. v + position_value) sector_values)
         | None \<Rightarrow>
             sector_values_loop rest
               (AList.map_entry ''other'' (\<lambda>v. v + position_value) sector_values))"

definition calculate_sector_concentration :: "position list \<Rightarrow> real \<Rightarrow> (string \<times> real) list" where
  "calculate_sector_concentration positions total_value =
     map (\<lambda>entry. (fst entry, (snd entry / total_value) * 100))
       (filter (\<lambda>entry. snd entry > 0)
          (sector_values_loop positions
             [(''crypto'', 0), (''forex'', 0), (''commodities'', 0), (''other'', 0)]))"

definition check_portfolio_risk ::
  "db \<Rightarrow> nat \<Rightarrow> real \<Rightarrow> real \<Rightarrow> real \<Rightarrow> error + risk_report" where
  "check_portfolio_risk d portfolio_id max_portfolio_risk max_correlation_risk
       max_sector_concentration =
     (case query_portfolio d portfolio_id of
        None \<Rightarrow> Inl PortfolioNotFound
      | Some portfolio \<Rightarrow>
          (let positions = active_positions d portfolio_id
           in if positions = [] then
                Inr \<lparr>rr_total_risk = 0,
                     rr_risk_level = ''low'',
                     rr_position_risks = None,
                     rr_sector_concentration = None,
                     rr_warnings = [],
                     rr_recommendations = [],
                     rr_max_portfolio_risk = None\<rparr>
              else
                (let total_value = pf_total_value portfolio
                 in if total_value = 0 then Inl (Raised ZeroDivisionError)
                    else
                      (case assess_positions total_value positions (0, [], [], []) of
                         (total_risk, position_risks, warnings, recommendations) \<Rightarrow>
                           (let warnings =
                                  (if total_risk > max_portfolio_risk
                                   then warnings @ [TotalRiskExceedsLimit total_risk max_portfolio_risk]
                                   else warnings);
                                recommendations =
                                  (if total_risk > max_portfolio_risk
                                   then recommendations @ [ReduceSizesOrTightenStops]
                                   else recommendations);
                                sector_concentration =
                                  calculate_sector_concentration positions total_value;
                                over = filter (\<lambda>entry. snd entry > max_sector_concentration)
                                         sector_concentration;
                                warnings =
                                  warnings @ map (\<lambda>entry. HighConcentration (fst entry) (snd entry)) over;
                                recommendations =
                                  recommendations @ map (\<lambda>entry. DiversifyAwayFrom (fst entry)) over;
                                risk_level =
                                  (if total_risk < 5 then ''low''
                                   else if total_risk < 10 then ''medium''
                                   else ''high'')
                            in Inr \<lparr>rr_total_risk = total_risk,
                                    rr_risk_level = risk_level,
                                    rr_position_risks = Some position_risks,
                                    rr_sector_concentration = Some sector_concentration,
                                    rr_warnings = warnings,
                                    rr_recommendations = recommendations,
                                    rr_max_portfolio_risk = Some max_portfolio_risk\<rparr>)))))"

section \<open>Value at Risk by simulation\<close>

text \<open>
  \<^verbatim>\<open>calculate_portfolio_var\<close>. The calls of \<^verbatim>\<open>np.random.normal(0, 0.02)\<close> are read
  from an input stream \<open>draws\<close>, one element per call, in the order of the calls; \<open>k\<close>
  counts the draws made so far. The inner loop accumulates one simulated portfolio return.
\<close>

fun trial_return :: "real \<Rightarrow> (nat \<Rightarrow> real) \<Rightarrow> position list \<Rightarrow> nat \<Rightarrow> real \<Rightarrow> real \<times> nat" where
  "trial_return total_value draws [] k daily_return = (daily_return, k)"
| "trial_return total_value draws (position # rest) k daily_return =
     (let position_value = pos_quantity position * pos_current_price position;
          weight = position_value / total_value;
          asset_return = draws k
      in trial_return total_value draws rest (Suc k) (daily_return + weight * asset_return))"

text \<open>The outer loop \<^verbatim>\<open>for _ in range(1000)\<close>, appending to \<^verbatim>\<open>portfolio_returns\<close>.\<close>

fun simulate_returns ::
  "nat \<Rightarrow> real \<Rightarrow> (nat \<Rightarrow> real) \<Rightarrow> position list \<Rightarrow> nat \<Rightarrow> real list \<Rightarrow> real list" where
  "simulate_returns 0 total_value draws positions k portfolio_returns = portfolio_returns"
| "simulate_returns (Suc n) total_value draws positions k portfolio_returns =
     (case trial_return total_value draws positions k 0 of
        (daily_return, k') \<Rightarrow>
          simulate_returns n total_value draws positions k' (portfolio_returns @ [daily_return]))"

text \<open>
  \<^verbatim>\<open>np.percentile(a, q)\<close> with numpy's default linear interpolation between the two
  order statistics around the index \<open>(n - 1) \<sdot> q / 100\<close>; \<open>q\<close> outside \<open>[0, 100]\<close>
  raises \<^verbatim>\<open>ValueError\<close>. The service only calls it on the 1000 simulated returns.
\<close>

definition np_percentile :: "real list \<Rightarrow> real \<Rightarrow> py_exception + real" where
  "np_percentile a q =
     (if q < 0 \<or> q > 100 then Inl ValueError
      else if a = [] then Inl IndexError
      else
        (let s = sort a;
             n = length s;
             virtual_index = (real n - 1) * (q / 100);
             previous = nat \<lfloor>virtual_index\<rfloor>;
             next = min (previous + 1) (n - 1);
             gamma = virtual_index - real previous
         in Inr (s ! previous + gamma * (s ! next - s ! previous))))"

definition np_mean :: "real list \<Rightarrow> real" where
  "np_mean a = sum_list a / real (length a)"

text \<open>
  The early return for a portfolio without active positions carries \<^verbatim>\<open>var\<close> and
  \<^verbatim>\<open>expected_shortfall\<close> only.
\<close>

record var_report =
  vr_var_percentage :: real
  vr_var_amount :: real
  vr_expected_shortfall_percentage :: real
  vr_expected_shortfall_amount :: real
  vr_confidence_level :: real
  vr_time_horizon_days :: int
  vr_portfolio_value :: real

datatype var_outcome = VarNoPositions real real | VarReport var_report

definition calculate_portfolio_var ::
  "db \<Rightarrow> (nat \<Rightarrow> real) \<Rightarrow> nat \<Rightarrow> real \<Rightarrow> int \<Rightarrow> error + var_outcome" where
  "calculate_portfolio_var d draws portfolio_id confidence_level time_horizon =
     (case query_portfolio d portfolio_id of
        None \<Rightarrow> Inl PortfolioNotFound
      | Some portfolio \<Rightarrow>
          (let positions = active_positions d portfolio_id
           in if positions = [] then Inr (VarNoPositions 0 0)
              else
                (let total_value = pf_total_value portfolio
                 in if total_value = 0 then Inl (Raised ZeroDivisionError)
                    else
                      (let portfolio_returns =
                             simulate_returns 1000 total_value draws positions 0 [];
                           var_percentile = (1 - confidence_level) * 100
                       in case np_percentile portfolio_returns var_percentile of
                            Inl e \<Rightarrow> Inl (Raised e)
                          | Inr var \<Rightarrow>
                              (let var_amount = \<bar>var * total_value\<bar>;
                                   tail_losses = filter (\<lambda>r. r \<le> var) portfolio_returns;
                                   expected_shortfall =
                                     (if length tail_losses > 0 then np_mean tail_losses
                                      else var);
                                   es_amount = \<bar>expected_shortfall * total_value\<bar>
                               in Inr (VarReport
                                    \<lparr>vr_var_percentage = \<bar>var\<bar> * 100,
                                     vr_var_amount = var_amount,
                                     vr_expected_shortfall_percentage =
                                       \<bar>expected_shortfall\<bar> * 100,
                                     vr_expected_shortfall_amount = es_amount,
                                     vr_confidence_level = confidence_level,
                                     vr_time_horizon_days = time_horizon,
                                     vr_portfolio_value = total_value\<rparr>))))))"

text \<open>
  The simulated returns in the words of the specification: trial \<open>i\<close> is the weighted
  sum, over the active positions, of the draws \<open>i \<sdot> n, \<dots>, i \<sdot> n + n - 1\<close> of the
  stream, each weighted by the position's share of the portfolio value; there are 1000
  trials.
\<close>

definition weighted_draws :: "real \<Rightarrow> (nat \<Rightarrow> real) \<Rightarrow> position list \<Rightarrow> nat \<Rightarrow> real" where
  "weighted_draws total_value draws positions i =
     sum_list (map (\<lambda>j. (pos_quantity (positions ! j) * pos_current_price (positions ! j)
                             / total_value) * draws (i * length positions + j))
                 [0..<length positions])"

definition spec_portfolio_returns :: "real \<Rightarrow> (nat \<Rightarrow> real) \<Rightarrow> position list \<Rightarrow> real list" where
  "spec_portfolio_returns total_value draws positions =
     map (weighted_draws total_value draws positions) [0..<1000]"

section \<open>Portfolio summary and rebalancing\<close>

text \<open>
  The portfolio service works on its own portfolio class with holdings. The columns it
  reads are kept; \<^verbatim>\<open>cash_balance\<close> is nullable (\<^verbatim>\<open>portfolio.cash_balance or 0\<close>).
  \<^verbatim>\<open>_get_current_price\<close> asks the ticker table and the exchange: it is the parameter
  \<open>price_feed\<close>, one snapshot per call of the planner.
\<close>

record managed_portfolio =
  mp_id :: nat
  mp_cash_balance :: "real option"
  mp_risk_level :: string
  mp_auto_rebalance :: bool
  mp_rebalance_threshold :: real

record holding =
  ho_portfolio_id :: nat
  ho_symbol :: string
  ho_exchange :: string
  ho_quantity :: real
  ho_average_price :: real
  ho_total_cost :: real

record portfolio_db =
  pdb_portfolios :: "managed_portfolio list"
  pdb_holdings :: "holding list"

type_synonym price_feed = "string \<Rightarrow> string \<Rightarrow> real option"

definition get_portfolio :: "portfolio_db \<Rightarrow> nat \<Rightarrow> managed_portfolio option" where
  "get_portfolio d portfolio_id = find (\<lambda>p. mp_id p = portfolio_id) (pdb_portfolios d)"

record holding_data =
  hd_symbol :: string
  hd_exchange :: string
  hd_quantity :: real
  hd_average_price :: real
  hd_current_price :: real
  hd_total_cost :: real
  hd_current_value :: real
  hd_unrealized_pnl :: real
  hd_unrealized_pnl_percentage :: real

text \<open>
  The loop of \<^verbatim>\<open>get_portfolio_summary\<close> over the holdings, with its accumulators
  \<^verbatim>\<open>holdings_data\<close> and \<^verbatim>\<open>total_holdings_value\<close>. A holding without a price (or with
  price 0) is skipped.
\<close>

fun summarise_holdings ::
  "price_feed \<Rightarrow> holding list \<Rightarrow> holding_data list \<times> real \<Rightarrow> holding_data list \<times> real" where
  "summarise_holdings feed [] acc = acc"
| "summarise_holdings feed (holding # rest) (holdings_data, total_holdings_value) =
     (case feed (ho_symbol holding) (ho_exchange holding) of
        None \<Rightarrow> summarise_holdings feed rest (holdings_data, total_holdings_value)
      | Some current_price \<Rightarrow>
          if current_price \<noteq> 0 then
            (let current_value = ho_quantity holding * current_price;
                 unrealized_pnl = current_value - ho_total_cost holding
             in summarise_holdings feed rest
                  (holdings_data @
                     [\<lparr>hd_symbol = ho_symbol holding,
                       hd_exchange = ho_exchange holding,
                       hd_quantity = ho_quantity holding,
                       hd_average_price = ho_average_price holding,
                       hd_current_price = current_price,
                       hd_total_cost = ho_total_cost holding,
                       hd_current_value = current_value,
                       hd_unrealized_pnl = unrealized_pnl,
                       hd_unrealized_pnl_percentage =
                         (if ho_total_cost holding > 0
                          then (unrealized_pnl / ho_total_cost holding) * 100 else 0)\<rparr>],
                   total_holdings_value + current_value))
          else summarise_holdings feed rest (holdings_data, total_holdings_value))"

text \<open>\<^verbatim>\<open>_calculate_allocation\<close>: a dictionary from symbol to weight, in insertion order.\<close>

fun allocation_loop :: "real \<Rightarrow> holding_data list \<Rightarrow> (string \<times> real) list \<Rightarrow> (string \<times> real) list" where
  "allocation_loop total_value [] allocation = allocation"
| "allocation_loop total_value (holding # rest) allocation =
     allocation_loop total_value rest
       (AList.update (hd_symbol holding) (hd_current_value holding / total_value) allocation)"

definition calculate_allocation :: "holding_data list \<Rightarrow> real \<Rightarrow> (string \<times> real) list" where
  "calculate_allocation holdings total_value =
     (if total_value > 0 then allocation_loop total_value holdings [] else [])"

text \<open>
  The summary dictionary: the total value, the holdings and the allocation. The other
  entries of its \<^verbatim>\<open>portfolio\<close> part are copies of columns and of the daily performance,
  which no planner decision reads.
\<close>

record summary =
  sm_total_value :: real
  sm_holdings :: "holding_data list"
  sm_allocation :: "(string \<times> real) list"

definition get_portfolio_summary :: "portfolio_db \<Rightarrow> price_feed \<Rightarrow> nat \<Rightarrow> error + summary" where
  "get_portfolio_summary d feed portfolio_id =
     (case get_portfolio d portfolio_id of
        None \<Rightarrow> Inl PortfolioNotFound
      | Some portfolio \<Rightarrow>
          (let holdings = filter (\<lambda>h. ho_portfolio_id h = portfolio_id \<and> ho_quantity h > 0)
                            (pdb_holdings d)
           in case summarise_holdings feed holdings ([], 0) of
                (holdings_data, total_holdings_value) \<Rightarrow>
                  (let cash = (case mp_cash_balance portfolio of
                                 None \<Rightarrow> 0
                               | Some c \<Rightarrow> if c \<noteq> 0 then c else 0);
                       total_value = cash + total_holdings_value
                   in Inr \<lparr>sm_total_value = total_value,
                           sm_holdings = holdings_data,
                           sm_allocation =
                             calculate_allocation holdings_data total_holdings_value\<rparr>)))"

definition risk_allocations :: "(string \<times> (string \<times> real) list) list" where
  "risk_allocations =
     [(''conservative'',
         [(''BTC/USDT'', 0.4), (''ETH/USDT'', 0.3), (''ADA/USDT'', 0.1), (''DOT/USDT'', 0.1),
          (''LINK/USDT'', 0.1)]),
      (''medium'',
         [(''BTC/USDT'', 0.3), (''ETH/USDT'', 0.25), (''ADA/USDT'', 0.15), (''DOT/USDT'', 0.1),
          (''LINK/USDT'', 0.1), (''SOL/USDT'', 0.1)]),
      (''aggressive'',
         [(''BTC/USDT'', 0.2), (''ETH/USDT'', 0.2), (''ADA/USDT'', 0.15), (''SOL/USDT'', 0.15),
          (''AVAX/USDT'', 0.1), (''MATIC/USDT'', 0.1), (''ATOM/USDT'', 0.1)])]"

text \<open>\<^verbatim>\<open>risk_allocations.get(portfolio.risk_level, risk_allocations['medium'])\<close>\<close>

definition get_target_allocation :: "managed_portfolio \<Rightarrow> (string \<times> real) list" where
  "get_target_allocation portfolio =
     (case map_of risk_allocations (mp_risk_level portfolio) of
        Some allocation \<Rightarrow> allocation
      | None \<Rightarrow>
          (case map_of risk_allocations ''medium'' of
             Some allocation \<Rightarrow> allocation
           | None \<Rightarrow> []))"

text \<open>\<^verbatim>\<open>target_allocation.get(symbol, 0)\<close>\<close>

definition target_weight_of :: "(string \<times> real) list \<Rightarrow> string \<Rightarrow> real" where
  "target_weight_of target_allocation symbol =
     (case map_of target_allocation symbol of None \<Rightarrow> 0 | Some w \<Rightarrow> w)"

record deviation =
  dv_symbol :: string
  dv_current_weight :: real
  dv_target_weight :: real
  dv_deviation :: real

fun deviations_loop ::
  "real \<Rightarrow> (string \<times> real) list \<Rightarrow> (string \<times> real) list
     \<Rightarrow> bool \<times> deviation list \<Rightarrow> bool \<times> deviation list" where
  "deviations_loop threshold target_allocation [] acc = acc"
| "deviations_loop threshold target_allocation (item # rest) (rebalancing_needed, deviations) =
     (let symbol = fst item;
          current_weight = snd item;
          target_weight = target_weight_of target_allocation symbol;
          deviation = \<bar>current_weight - target_weight\<bar>
      in if deviation > threshold then
           deviations_loop threshold target_allocation rest
             (True,
              deviations @ [\<lparr>dv_symbol = symbol, dv_current_weight = current_weight,
                              dv_target_weight = target_weight, dv_deviation = deviation\<rparr>])
         else deviations_loop threshold target_allocation rest (rebalancing_needed, deviations))"

text \<open>
  The result of \<^verbatim>\<open>check_rebalancing_needed\<close>: the early returns carry the flag only.
\<close>

datatype rebalance_check =
    NotNeeded
  | Checked bool "deviation list" "(string \<times> real) list" "(string \<times> real) list"

fun rebalancing_needed :: "rebalance_check \<Rightarrow> bool" where
  "rebalancing_needed NotNeeded = False"
| "rebalancing_needed (Checked needed deviations current_allocation target_allocation) = needed"

definition check_rebalancing_needed :: "portfolio_db \<Rightarrow> price_feed \<Rightarrow> nat \<Rightarrow> rebalance_check" where
  "check_rebalancing_needed d feed portfolio_id =
     (case get_portfolio d portfolio_id of
        None \<Rightarrow> NotNeeded
      | Some portfolio \<Rightarrow>
          if \<not> mp_auto_rebalance portfolio then NotNeeded
          else
            (case get_portfolio_summary d feed portfolio_id of
               Inl e \<Rightarrow> NotNeeded
             | Inr summary \<Rightarrow>
                 (let current_allocation = sm_allocation summary;
                      target_allocation = get_target_allocation portfolio
                  in case deviations_loop (mp_rebalance_threshold portfolio) target_allocation
                            current_allocation (False, []) of
                       (needed, deviations) \<Rightarrow>
                         Checked needed deviations current_allocation target_allocation)))"

record rebalancing_trade =
  rt_symbol :: string
  rt_exchange :: string
  rt_type :: string
  rt_quantity :: real
  rt_current_price :: real
  rt_value_difference :: real

text \<open>
  The loop of \<^verbatim>\<open>execute_rebalancing\<close> over the summary's holdings. Every holding of a
  summary has a nonzero price, so the division does not raise. The source also computes a
  \<^verbatim>\<open>current_weight\<close> that it never uses.
\<close>

fun plan_trades ::
  "real \<Rightarrow> (string \<times> real) list \<Rightarrow> holding_data list \<Rightarrow> rebalancing_trade list
     \<Rightarrow> rebalancing_trade list" where
  "plan_trades total_value target_allocation [] rebalancing_trades = rebalancing_trades"
| "plan_trades total_value target_allocation (holding # rest) rebalancing_trades =
     (let symbol = hd_symbol holding;
          current_value = hd_current_value holding;
          target_weight = target_weight_of target_allocation symbol;
          target_value = total_value * target_weight;
          value_difference = target_value - current_value
      in if \<bar>value_difference\<bar> > 10 then
           (let current_price = hd_current_price holding;
                quantity_difference = value_difference / current_price;
                trade_type = (if quantity_difference > 0 then ''BUY'' else ''SELL'')
            in plan_trades total_value target_allocation rest
                 (rebalancing_trades @
                    [\<lparr>rt_symbol = symbol,
                      rt_exchange = hd_exchange holding,
                      rt_type = trade_type,
                      rt_quantity = \<bar>quantity_difference\<bar>,
                      rt_current_price = current_price,
                      rt_value_difference = value_difference\<rparr>]))
         else plan_trades total_value target_allocation rest rebalancing_trades)"

datatype rebalancing_outcome = NoRebalancingNeeded | RebalancingTrades "rebalancing_trade list"

definition execute_rebalancing ::
  "portfolio_db \<Rightarrow> price_feed \<Rightarrow> nat \<Rightarrow> error + rebalancing_outcome" where
  "execute_rebalancing d feed portfolio_id =
     (if \<not> rebalancing_needed (check_rebalancing_needed d feed portfolio_id)
      then Inr NoRebalancingNeeded
      else
        (case get_portfolio_summary d feed portfolio_id of
           Inl e \<Rightarrow> Inl CouldNotGetPortfolioSummary
         | Inr summary \<Rightarrow>
             (case get_portfolio d portfolio_id of
                None \<Rightarrow> Inl (Raised AttributeError)
              | Some portfolio \<Rightarrow>
                  Inr (RebalancingTrades
                         (plan_trades (sm_total_value summary) (get_target_allocation portfolio)
                            (sm_holdings summary) [])))))"

section \<open>Concrete scenarios\<close>

text \<open>
  The sizing scenario of the specification (portfolio value 10000) with a chosen
  available balance, and a Long position entered at 100 with a chosen price and stop.
\<close>

definition sizing_db :: "real \<Rightarrow> db" where
  "sizing_db available =
     \<lparr>db_portfolios = [\<lparr>pf_id = 1, pf_user_id = 1, pf_total_value = 10000,
                        pf_available_balance = available\<rparr>],
      db_users = [\<lparr>user_id = 1\<rparr>],
      db_positions = [],
      db_trades = []\<rparr>"

definition trailing_position :: "real \<Rightarrow> real option \<Rightarrow> position" where
  "trailing_position price stop =
     \<lparr>pos_id = 1, pos_portfolio_id = 1, pos_symbol = ''BTC/USDT'', pos_exchange = ''binance'',
      pos_position_type = ''long'', pos_status = ''active'', pos_quantity = 2,
      pos_entry_price = 100, pos_current_price = price, pos_stop_loss_price = stop,
      pos_take_profit_price = None, pos_exit_price = None, pos_exit_time = None\<rparr>"

definition trailing_db :: "real \<Rightarrow> real option \<Rightarrow> db" where
  "trailing_db price stop =
     \<lparr>db_portfolios = [\<lparr>pf_id = 1, pf_user_id = 1, pf_total_value = 10000,
                        pf_available_balance = 500\<rparr>],
      db_users = [\<lparr>user_id = 1\<rparr>],
      db_positions = [trailing_position price stop],
      db_trades = []\<rparr>"

text \<open>
  A portfolio with one Long position of 2 units at price 100 and stop 90, with a chosen
  total value, position status and entry price.
\<close>

definition risk_db :: "real \<Rightarrow> string \<Rightarrow> real \<Rightarrow> db" where
  "risk_db total_value status entry =
     \<lparr>db_portfolios = [\<lparr>pf_id = 1, pf_user_id = 1, pf_total_value = total_value,
                        pf_available_balance = 500\<rparr>],
      db_users = [\<lparr>user_id = 1\<rparr>],
      db_positions =
        [\<lparr>pos_id = 1, pos_portfolio_id = 1, pos_symbol = ''ETH/USDT'', pos_exchange = ''binance'',
          pos_position_type = ''long'', pos_status = status, pos_quantity = 2,
          pos_entry_price = entry, pos_current_price = 100, pos_stop_loss_price = Some 90,
          pos_take_profit_price = None, pos_exit_price = None, pos_exit_time = None\<rparr>],
      db_trades = []\<rparr>"

text \<open>
  A medium-risk portfolio without cash holding one BTC priced at 650 and one ETH priced
  at 100, with automatic rebalancing at a threshold of 5 percent.
\<close>

definition rebalance_feed :: price_feed where
  "rebalance_feed symbol exchange =
     (if symbol = ''BTC/USDT'' then Some 650
      else if symbol = ''ETH/USDT'' then Some 100
      else None)"

definition rebalance_db :: portfolio_db where
  "rebalance_db =
     \<lparr>pdb_portfolios =
        [\<lparr>mp_id = 1, mp_cash_balance = None, mp_risk_level = ''medium'',
          mp_auto_rebalance = True, mp_rebalance_threshold = 0.05\<rparr>],
      pdb_holdings =
        [\<lparr>ho_portfolio_id = 1, ho_symbol = ''BTC/USDT'', ho_exchange = ''binance'',
          ho_quantity = 1, ho_average_price = 500, ho_total_cost = 500\<rparr>,
         \<lparr>ho_portfolio_id = 1, ho_symbol = ''ETH/USDT'', ho_exchange = ''binance'',
          ho_quantity = 1, ho_average_price = 120, ho_total_cost = 120\<rparr>]\<rparr>"

section \<open>Properties of the trailing stop\<close>

text \<open>
  C1. A Long position entered at 100 and now priced at 125 is 25 percent in profit. The
  claim expects the stop to lock at 110. The first branch (\<^verbatim>\<open>profit_pct > 10\<close>) already
  holds at 25 percent, so the second (\<^verbatim>\<open>profit_pct > 20\<close>) is never reached and the
  function returns 102, whatever the other fields of the position are.
\<close>

theorem trailing_stop_long_100_at_125:
  "calculate_trailing_stop_loss
     (p\<lparr>pos_position_type := ''long'', pos_entry_price := 100, pos_current_price := 125\<rparr>)
   = Some 102"
  by (simp add: calculate_trailing_stop_loss_def lower_def lower_char_def)

text \<open>A position written back under its own key is what the next query by that key finds.\<close>

lemma query_saved_position:
  "query_position d (pos_id p') = Some p \<Longrightarrow>
   query_position (d\<lparr>db_positions := save_position p' (db_positions d)\<rparr>) (pos_id p') = Some p'"
proof -
  have "find (\<lambda>q. pos_id q = pos_id p') xs = Some p \<Longrightarrow>
        find (\<lambda>q. pos_id q = pos_id p') (save_position p' xs) = Some p'" for xs
    by (induction xs) (auto split: if_splits)
  then show "query_position d (pos_id p') = Some p \<Longrightarrow> ?thesis"
    by (simp add: query_position_def)
qed

section \<open>Properties of position sizing\<close>

text \<open>The arithmetic core of the two caps, for any size proposed by the risk rule.\<close>

lemma capped_value_bounds:
  fixes entry av mv rs :: real
  assumes "0 < entry" "0 < av"
  defines "ps \<equiv> min rs (mv / entry)"
  defines "fin \<equiv> (if ps * entry > av then av / entry * 0.95 else ps)"
  shows "fin * entry \<le> av" and "fin * entry \<le> mv"
    and "ps * entry > av \<Longrightarrow> fin * entry = av * 0.95"
proof -
  have "ps \<le> mv / entry" by (simp add: ps_def)
  then have req: "ps * entry \<le> mv"
    using assms(1) by (simp add: pos_le_divide_eq)
  show "fin * entry \<le> av"
    using assms(1,2) by (simp add: fin_def)
  show "fin * entry \<le> mv"
    using assms(1,2) req by (simp add: fin_def)
  show "ps * entry > av \<Longrightarrow> fin * entry = av * 0.95"
    using assms(1) by (simp add: fin_def)
qed

text \<open>
  C3 (as amended). For a found portfolio with positive total value and available balance
  and a positive entry price, sizing succeeds, the position value is size times entry
  price, it is at most the available balance and at most
  \<open>portfolioValue \<sdot> maxPositionPct / 100\<close>; the 5 percent buffer is applied only when the
  capital required by the capped size exceeds the available balance, and then the
  position value is exactly 95 percent of the balance.
\<close>

theorem position_value_bounds:
  assumes pf: "query_portfolio d pid = Some pf"
    and entry: "0 < entry"
    and total: "0 < pf_total_value pf"
    and avail: "0 < pf_available_balance pf"
  shows "\<exists>r. calculate_position_size d pid smb entry stop rp mp = Inr r
           \<and> ps_position_value r = ps_position_size r * entry
           \<and> ps_position_value r \<le> pf_available_balance pf
           \<and> ps_position_value r \<le> pf_total_value pf * mp / 100
           \<and> (ps_required_capital r > pf_available_balance pf
                \<longrightarrow> ps_position_value r = pf_available_balance pf * 0.95)"
proof -
  define risk where "risk = pf_total_value pf * (rp / 100)"
  define rs where "rs =
    (case stop of
       None \<Rightarrow> risk / (entry * 0.02)
     | Some s \<Rightarrow>
         if s \<noteq> 0
         then (let price_risk = \<bar>entry - s\<bar> in if price_risk > 0 then risk / price_risk else 0)
         else risk / (entry * 0.02))"
  define mv where "mv = pf_total_value pf * (mp / 100)"
  define ps where "ps = min rs (mv / entry)"
  define fin where
    "fin = (if ps * entry > pf_available_balance pf
            then pf_available_balance pf / entry * 0.95 else ps)"
  have res: "calculate_position_size d pid smb entry stop rp mp =
      Inr \<lparr>ps_position_size = fin,
           ps_position_value = fin * entry,
           ps_risk_amount = risk,
           ps_risk_percentage = (risk / pf_total_value pf) * 100,
           ps_position_percentage = (fin * entry / pf_total_value pf) * 100,
           ps_required_capital = ps * entry,
           ps_available_balance = pf_available_balance pf\<rparr>"
    unfolding calculate_position_size_def Let_def fin_def ps_def mv_def rs_def risk_def
    using pf entry total by (cases stop) simp_all
  have b1: "fin * entry \<le> pf_available_balance pf"
    and b2: "fin * entry \<le> mv"
    and b3: "ps * entry > pf_available_balance pf \<Longrightarrow> fin * entry = pf_available_balance pf * 0.95"
    unfolding fin_def ps_def by (rule capped_value_bounds [OF entry avail])+
  show ?thesis
    using res b1 b2 b3 by (simp add: mv_def)
qed

text \<open>
  The bound \<open>availableBalance \<sdot> 0.95\<close> of C3 fails when the required capital is at most
  the balance: portfolio value 10000, balance 1000, entry 50000, stop 48000, risk 2 percent,
  cap 10 percent give a position value of 1000, above 950.
\<close>

theorem sizing_buffer_counterexample:
  "\<not> isl (calculate_position_size (sizing_db 1000) 1 ''BTC/USDT'' 50000 (Some 48000) 2 10)
   \<and> ps_position_value
        (projr (calculate_position_size (sizing_db 1000) 1 ''BTC/USDT'' 50000 (Some 48000) 2 10))
      > 1000 * 0.95"
  by (simp add: calculate_position_size_def sizing_db_def query_portfolio_def)

text \<open>The same scenario with a balance of 500: the buffer applies and the value is 475.\<close>

theorem position_value_bounds_witness:
  "query_portfolio (sizing_db 500) 1
     = Some \<lparr>pf_id = 1, pf_user_id = 1, pf_total_value = 10000, pf_available_balance = 500\<rparr>
   \<and> (\<exists>r. calculate_position_size (sizing_db 500) 1 ''BTC/USDT'' 50000 (Some 48000) 2 10 = Inr r
          \<and> ps_position_value r = ps_position_size r * 50000
          \<and> ps_position_value r \<le> 500
          \<and> ps_position_value r \<le> 10000 * 10 / 100
          \<and> ps_required_capital r > 500
          \<and> ps_position_value r = 500 * 0.95)"
proof -
  have h: "query_portfolio (sizing_db 500) 1
     = Some \<lparr>pf_id = 1, pf_user_id = 1, pf_total_value = 10000, pf_available_balance = 500\<rparr>"
    by (simp add: sizing_db_def query_portfolio_def)
  have r: "ps_required_capital
        (projr (calculate_position_size (sizing_db 500) 1 ''BTC/USDT'' 50000 (Some 48000) 2 10)) > 500"
    by (simp add: calculate_position_size_def sizing_db_def query_portfolio_def)
  show ?thesis
    using h r position_value_bounds [OF h, of 50000 "''BTC/USDT''" "Some 48000" 2 10]
    by auto
qed

text \<open>
  C4 (as amended). The source has no insufficient-capital failure. For a found portfolio
  and a positive entry price, sizing succeeds exactly when the portfolio's total value is
  not zero, and fails (with the division error of the percentage fields) exactly when it
  is zero; the available balance plays no part in either.
\<close>

theorem sizing_failure_cases:
  assumes pf: "query_portfolio d pid = Some pf"
    and entry: "0 < entry"
  shows "(\<exists>r. calculate_position_size d pid smb entry stop rp mp = Inr r) = (pf_total_value pf \<noteq> 0)
       \<and> (calculate_position_size d pid smb entry stop rp mp = Inl (Raised ZeroDivisionError))
            = (pf_total_value pf = 0)"
  using assms
  by (cases stop) (auto simp: calculate_position_size_def Let_def)

text \<open>
  With an available balance of 0 the call succeeds and returns a size of 0; no
  insufficient-capital error is produced.
\<close>

theorem insufficient_capital_counterexample:
  "calculate_position_size (sizing_db 0) 1 ''BTC/USDT'' 50000 (Some 48000) 2 10
   = Inr \<lparr>ps_position_size = 0, ps_position_value = 0, ps_risk_amount = 200,
          ps_risk_percentage = 2, ps_position_percentage = 0, ps_required_capital = 1000,
          ps_available_balance = 0\<rparr>"
  by (simp add: calculate_position_size_def sizing_db_def query_portfolio_def)

text \<open>A negative balance succeeds as well.\<close>

theorem sizing_failure_cases_witness:
  "(\<exists>r. calculate_position_size (sizing_db (- 50)) 1 ''BTC/USDT'' 50000 None 2 10 = Inr r)
   \<and> calculate_position_size (sizing_db (- 50)) 1 ''BTC/USDT'' 50000 None 2 10
       \<noteq> Inl (Raised ZeroDivisionError)"
proof -
  have h: "query_portfolio (sizing_db (- 50)) 1
     = Some \<lparr>pf_id = 1, pf_user_id = 1, pf_total_value = 10000, pf_available_balance = - 50\<rparr>"
    by (simp add: sizing_db_def query_portfolio_def)
  show ?thesis
    using sizing_failure_cases [OF h, of 50000 "''BTC/USDT''" None 2 10] by simp
qed

section \<open>Properties of the stop and target levels\<close>

text \<open>
  C5 (as amended). Whatever the stop method, entry price and side: when
  \<open>calculate_stop_loss\<close> succeeds and \<open>calculate_take_profit\<close> is given its stop
  price, a nonzero risk/reward ratio \<open>R\<close> and no target percentage, and the target price
  (entry plus, for a Short minus, \<open>R\<close> times the stop's risk amount) is not zero, then
  \<open>calculate_take_profit\<close> succeeds and its profit amount is \<open>\<bar>R\<bar>\<close> times the
  stop's risk amount, that is \<open>R\<close> times it for a positive ratio. Over the reals the
  equality is exact.
\<close>

theorem reward_is_ratio_times_risk:
  assumes sl: "calculate_stop_loss entry side method pct atr sr = Inr sl"
    and R: "R \<noteq> 0"
    and target: "(if lower side = ''long''
                  then entry + sl_risk_amount sl * R
                  else entry - sl_risk_amount sl * R) \<noteq> 0"
  shows "\<exists>tp. calculate_take_profit entry side R (Some (sl_stop_loss_price sl)) None = Inr tp
           \<and> tp_profit_amount tp = \<bar>R\<bar> * sl_risk_amount sl"
proof -
  have risk: "sl_risk_amount sl = \<bar>entry - sl_stop_loss_price sl\<bar>"
    using sl by (auto simp: calculate_stop_loss_def Let_def split: if_splits option.splits)
  have stop: "sl_stop_loss_price sl \<noteq> 0"
    using sl by (auto simp: calculate_stop_loss_def Let_def split: if_splits option.splits)
  have entry: "entry \<noteq> 0"
    using sl by (auto simp: calculate_stop_loss_def Let_def split: if_splits option.splits)
  show ?thesis
  proof (cases "lower side = ''long''")
    case True
    with target have t: "entry + \<bar>entry - sl_stop_loss_price sl\<bar> * R \<noteq> 0"
      by (simp add: risk)
    show ?thesis
      using True t R stop entry
      by (simp add: calculate_take_profit_def Let_def risk abs_mult mult.commute)
  next
    case False
    with target have t: "entry - \<bar>entry - sl_stop_loss_price sl\<bar> * R \<noteq> 0"
      by (simp add: risk)
    show ?thesis
      using False t R stop entry
      by (simp add: calculate_take_profit_def Let_def risk abs_mult mult.commute)
  qed
qed

text \<open>
  Without the condition on the target price the claim fails: a Short entered at 100 with
  a 50 percent stop has its stop at 150 and a risk of 50; with ratio 2 the target price is
  0, which the test \<^verbatim>\<open>if take_profit_price\<close> rejects, so no profit amount is returned.
\<close>

theorem take_profit_zero_target_counterexample:
  "calculate_stop_loss 100 ''short'' ''percentage'' 50 2 None
     = Inr \<lparr>sl_stop_loss_price = 150, sl_risk_amount = 50, sl_risk_percentage = 50,
            sl_method = ''percentage''\<rparr>
   \<and> calculate_take_profit 100 ''short'' 2 (Some 150) None = Inl CouldNotCalculateTakeProfit"
  by (simp add: calculate_stop_loss_def calculate_take_profit_def lower_def lower_char_def)

text \<open>Long at 100 with a 2 percent stop and ratio 3: risk 2, target 106, reward 6.\<close>

theorem reward_is_ratio_times_risk_witness:
  "calculate_stop_loss 100 ''long'' ''percentage'' 2 2 None
     = Inr \<lparr>sl_stop_loss_price = 98, sl_risk_amount = 2, sl_risk_percentage = 2,
            sl_method = ''percentage''\<rparr>
   \<and> (3::real) \<noteq> 0
   \<and> (100::real) + 2 * 3 \<noteq> 0
   \<and> (\<exists>tp. calculate_take_profit 100 ''long'' 3 (Some 98) None = Inr tp
          \<and> tp_profit_amount tp = \<bar>3\<bar> * 2)"
proof -
  have sl: "calculate_stop_loss 100 ''long'' ''percentage'' 2 2 None
     = Inr \<lparr>sl_stop_loss_price = 98, sl_risk_amount = 2, sl_risk_percentage = 2,
            sl_method = ''percentage''\<rparr>"
    by (simp add: calculate_stop_loss_def lower_def lower_char_def)
  have R: "(3::real) \<noteq> 0" by simp
  have target: "(if lower ''long'' = ''long''
                  then 100 + sl_risk_amount \<lparr>sl_stop_loss_price = 98, sl_risk_amount = 2,
                         sl_risk_percentage = 2, sl_method = ''percentage''\<rparr> * 3
                  else 100 - sl_risk_amount \<lparr>sl_stop_loss_price = 98, sl_risk_amount = 2,
                         sl_risk_percentage = 2, sl_method = ''percentage''\<rparr> * 3) \<noteq> (0::real)"
    by (simp add: lower_def lower_char_def)
  show ?thesis
    using sl reward_is_ratio_times_risk [OF sl R target] by simp
qed

section \<open>Properties of the risk actions\<close>




text \<open>
  C8 (as amended). An exit for less than the position's quantity reduces the quantity by
  the exit quantity and leaves status, exit price and exit time as they were; an exit for
  the whole quantity or more sets the status to \<open>closed\<close>, the exit price to the current
  price and the exit time to the time of the call, and keeps the quantity.
\<close>

theorem exit_order_transitions:
  assumes q: "query_position d (pos_id p) = Some p"
    and out: "execute_exit_order d now p qty order_type reason = (res, d')"
  shows "\<exists>p'. query_position d' (pos_id p) = Some p'
           \<and> (if qty < pos_quantity p
               then pos_status p' = pos_status p
                  \<and> pos_quantity p' = pos_quantity p - qty
                  \<and> pos_exit_price p' = pos_exit_price p
                  \<and> pos_exit_time p' = pos_exit_time p
               else pos_status p' = ''closed''
                  \<and> pos_quantity p' = pos_quantity p
                  \<and> pos_exit_price p' = Some (pos_current_price p)
                  \<and> pos_exit_time p' = Some now)"
proof -
  have id: "pos_id (exit_position now p qty) = pos_id p"
    by (simp add: exit_position_def Let_def)
  have d': "d' = d\<lparr>db_positions := save_position (exit_position now p qty) (db_positions d),
                   db_trades := db_trades d @ [exit_trade now p qty order_type reason]\<rparr>"
    using out by (simp add: execute_exit_order_def Let_def)
  have "query_position (d\<lparr>db_positions := save_position (exit_position now p qty) (db_positions d)\<rparr>)
          (pos_id (exit_position now p qty)) = Some (exit_position now p qty)"
    by (rule query_saved_position [where p = p]) (simp add: id q)
  then have "query_position d' (pos_id p) = Some (exit_position now p qty)"
    by (simp add: d' id query_position_def)
  then show ?thesis
    by (auto simp: exit_position_def Let_def)
qed

text \<open>
  Exiting 1 of 2 units of an active position: the status stays \<open>active\<close>, it does not
  become \<open>partially_closed\<close>.
\<close>

theorem partial_exit_status_counterexample:
  "map pos_status (db_positions (snd (execute_exit_order (trailing_db 125 (Some 102)) 7
       (trailing_position 125 (Some 102)) 1 ''market'' TakeProfitExecuted))) = [''active'']
   \<and> map pos_quantity (db_positions (snd (execute_exit_order (trailing_db 125 (Some 102)) 7
       (trailing_position 125 (Some 102)) 1 ''market'' TakeProfitExecuted))) = [1]"
  by (simp add: execute_exit_order_def exit_position_def trailing_db_def trailing_position_def)

text \<open>Exiting both units at time 7 closes the position at the current price 125.\<close>

theorem exit_order_transitions_witness:
  "query_position (trailing_db 125 (Some 102)) 1 = Some (trailing_position 125 (Some 102))
   \<and> (\<exists>p'. query_position (snd (execute_exit_order (trailing_db 125 (Some 102)) 7
                (trailing_position 125 (Some 102)) 2 ''market'' StopLossTriggered)) 1 = Some p'
          \<and> pos_status p' = ''closed'' \<and> pos_exit_price p' = Some 125 \<and> pos_exit_time p' = Some 7)"
proof -
  have i: "pos_id (trailing_position 125 (Some 102)) = 1"
    by (simp add: trailing_position_def)
  have q: "query_position (trailing_db 125 (Some 102)) (pos_id (trailing_position 125 (Some 102)))
           = Some (trailing_position 125 (Some 102))"
    by (simp add: trailing_db_def query_position_def trailing_position_def)
  have c: "pos_quantity (trailing_position 125 (Some 102)) = 2"
       "pos_current_price (trailing_position 125 (Some 102)) = 125"
    by (simp_all add: trailing_position_def)
  show ?thesis
    using q exit_order_transitions [OF q surjective_pairing, of 7 2 "''market''" StopLossTriggered]
    by (auto simp: i c)
qed

section \<open>Properties of the portfolio risk assessment\<close>

text \<open>
  C10. For an existing portfolio without active positions the assessment succeeds with
  total risk 0, risk level \<open>low\<close> and empty warning and recommendation lists. The
  portfolio's value is not read: the result is the same for every total value, zero
  included.
\<close>

theorem no_active_positions_low_risk:
  assumes "query_portfolio d pid = Some pf"
    and "active_positions d pid = []"
  shows "check_portfolio_risk d pid max_portfolio_risk max_correlation_risk max_sector_concentration
         = Inr \<lparr>rr_total_risk = 0, rr_risk_level = ''low'', rr_position_risks = None,
                rr_sector_concentration = None, rr_warnings = [], rr_recommendations = [],
                rr_max_portfolio_risk = None\<rparr>"
  using assms by (simp add: check_portfolio_risk_def)

text \<open>A portfolio of total value 0 whose only position is closed.\<close>

theorem no_active_positions_low_risk_witness:
  "query_portfolio (risk_db 0 ''closed'' 80) 1
     = Some \<lparr>pf_id = 1, pf_user_id = 1, pf_total_value = 0, pf_available_balance = 500\<rparr>
   \<and> active_positions (risk_db 0 ''closed'' 80) 1 = []
   \<and> check_portfolio_risk (risk_db 0 ''closed'' 80) 1 10 0.7 30
     = Inr \<lparr>rr_total_risk = 0, rr_risk_level = ''low'', rr_position_risks = None,
            rr_sector_concentration = None, rr_warnings = [], rr_recommendations = [],
            rr_max_portfolio_risk = None\<rparr>"
proof -
  have q: "query_portfolio (risk_db 0 ''closed'' 80) 1
     = Some \<lparr>pf_id = 1, pf_user_id = 1, pf_total_value = 0, pf_available_balance = 500\<rparr>"
    by (simp add: risk_db_def query_portfolio_def)
  have a: "active_positions (risk_db 0 ''closed'' 80) 1 = []"
    by (simp add: risk_db_def active_positions_def)
  show ?thesis
    using q a no_active_positions_low_risk [OF q a, of 10 "0.7" 30] by simp
qed

text \<open>
  The total risk accumulated by the loop depends on the quantities, current prices and
  stop levels only, not on the other accumulators or fields.
\<close>

lemma assess_positions_total_risk:
  assumes "length ps = length qs"
    and "map (\<lambda>p. (pos_quantity p, pos_current_price p, pos_stop_loss_price p)) ps
       = map (\<lambda>p. (pos_quantity p, pos_current_price p, pos_stop_loss_price p)) qs"
  shows "fst (assess_positions tv ps (t, a)) = fst (assess_positions tv qs (t, b))"
  using assms
proof (induction ps qs arbitrary: t a b rule: list_induct2)
  case Nil
  then show ?case by simp
next
  case (Cons p ps q qs)
  obtain a1 a2 a3 where a: "a = (a1, a2, a3)" by (cases a)
  obtain b1 b2 b3 where b: "b = (b1, b2, b3)" by (cases b)
  from Cons.prems have hd: "pos_quantity p = pos_quantity q"
      "pos_current_price p = pos_current_price q"
      "pos_stop_loss_price p = pos_stop_loss_price q"
    and tl: "map (\<lambda>p. (pos_quantity p, pos_current_price p, pos_stop_loss_price p)) ps
       = map (\<lambda>p. (pos_quantity p, pos_current_price p, pos_stop_loss_price p)) qs"
    by simp_all
  show ?case
    unfolding a b assess_positions.simps Let_def hd
    by (rule Cons.IH [OF tl])
qed

text \<open>
  C6. Two assessments return the same total risk and risk level (or the same failure)
  whenever they run with the same limit parameters on database states that agree on the
  portfolio's total value and on the quantities, current prices and stop levels of its
  active positions, in order. A second call on the unchanged database is the special case
  of equal states.
\<close>

theorem assessment_determined_by_inputs:
  assumes pf: "map_option pf_total_value (query_portfolio d1 pid)
             = map_option pf_total_value (query_portfolio d2 pid)"
    and ps: "map (\<lambda>p. (pos_quantity p, pos_current_price p, pos_stop_loss_price p))
               (active_positions d1 pid)
           = map (\<lambda>p. (pos_quantity p, pos_current_price p, pos_stop_loss_price p))
               (active_positions d2 pid)"
  shows "map_sum id (\<lambda>r. (rr_total_risk r, rr_risk_level r))
           (check_portfolio_risk d1 pid max_portfolio_risk max_correlation_risk
              max_sector_concentration)
       = map_sum id (\<lambda>r. (rr_total_risk r, rr_risk_level r))
           (check_portfolio_risk d2 pid max_portfolio_risk max_correlation_risk
              max_sector_concentration)"
proof (cases "query_portfolio d1 pid")
  case None
  with pf have "query_portfolio d2 pid = None" by simp
  with None show ?thesis by (simp add: check_portfolio_risk_def)
next
  case (Some pf1)
  with pf obtain pf2 where pf2: "query_portfolio d2 pid = Some pf2"
    and tv: "pf_total_value pf2 = pf_total_value pf1"
    by (cases "query_portfolio d2 pid") auto
  have len: "length (active_positions d1 pid) = length (active_positions d2 pid)"
    using ps by (rule map_eq_imp_length_eq)
  then have emp: "(active_positions d1 pid = []) = (active_positions d2 pid = [])"
    by (metis length_0_conv)
  have risk: "fst (assess_positions (pf_total_value pf1) (active_positions d1 pid) (0, [], [], []))
            = fst (assess_positions (pf_total_value pf1) (active_positions d2 pid) (0, [], [], []))"
    by (rule assess_positions_total_risk [OF len ps])
  obtain t1 x1 y1 z1 where r1:
    "assess_positions (pf_total_value pf1) (active_positions d1 pid) (0, [], [], []) = (t1, x1, y1, z1)"
    by (cases "assess_positions (pf_total_value pf1) (active_positions d1 pid) (0, [], [], [])")
  obtain t2 x2 y2 z2 where r2:
    "assess_positions (pf_total_value pf1) (active_positions d2 pid) (0, [], [], []) = (t2, x2, y2, z2)"
    by (cases "assess_positions (pf_total_value pf1) (active_positions d2 pid) (0, [], [], [])")
  have t: "t1 = t2"
    using risk by (simp add: r1 r2)
  show ?thesis
    using emp by (simp add: check_portfolio_risk_def Some pf2 tv Let_def r1 r2 t)
qed

text \<open>
  Two states that differ in the entry price of the position: both assessments give a total
  risk of 2 percent and the level \<open>low\<close>.
\<close>

theorem assessment_determined_by_inputs_witness:
  "map_sum id (\<lambda>r. (rr_total_risk r, rr_risk_level r))
     (check_portfolio_risk (risk_db 1000 ''active'' 80) 1 10 0.7 30)
   = map_sum id (\<lambda>r. (rr_total_risk r, rr_risk_level r))
     (check_portfolio_risk (risk_db 1000 ''active'' 95) 1 10 0.7 30)
   \<and> map_sum id (\<lambda>r. (rr_total_risk r, rr_risk_level r))
     (check_portfolio_risk (risk_db 1000 ''active'' 80) 1 10 0.7 30) = Inr (2, ''low'')"
proof -
  have pf: "map_option pf_total_value (query_portfolio (risk_db 1000 ''active'' 80) 1)
          = map_option pf_total_value (query_portfolio (risk_db 1000 ''active'' 95) 1)"
    by (simp add: risk_db_def query_portfolio_def)
  have ps: "map (\<lambda>p. (pos_quantity p, pos_current_price p, pos_stop_loss_price p))
               (active_positions (risk_db 1000 ''active'' 80) 1)
           = map (\<lambda>p. (pos_quantity p, pos_current_price p, pos_stop_loss_price p))
               (active_positions (risk_db 1000 ''active'' 95) 1)"
    by (simp add: risk_db_def active_positions_def)
  have v: "map_sum id (\<lambda>r. (rr_total_risk r, rr_risk_level r))
     (check_portfolio_risk (risk_db 1000 ''active'' 80) 1 10 0.7 30) = Inr (2, ''low'')"
    by (simp add: check_portfolio_risk_def risk_db_def query_portfolio_def active_positions_def
        Let_def)
  show ?thesis
    using v assessment_determined_by_inputs [OF pf ps, of 10 "0.7" 30] by simp
qed

section \<open>Properties of the rebalancing planner\<close>

text \<open>
  Every trade in the planner's list was either there before the loop or was built from one
  holding whose value difference exceeds 10 in absolute value.
\<close>

lemma plan_trades_member:
  assumes "t \<in> set (plan_trades total_value target_allocation holdings trades)"
  shows "t \<in> set trades \<or>
    (\<exists>h \<in> set holdings.
       \<bar>total_value * target_weight_of target_allocation (hd_symbol h) - hd_current_value h\<bar> > 10
       \<and> t = \<lparr>rt_symbol = hd_symbol h,
               rt_exchange = hd_exchange h,
               rt_type =
                 (if (total_value * target_weight_of target_allocation (hd_symbol h)
                        - hd_current_value h) / hd_current_price h > 0
                  then ''BUY'' else ''SELL''),
               rt_quantity =
                 \<bar>(total_value * target_weight_of target_allocation (hd_symbol h)
                     - hd_current_value h) / hd_current_price h\<bar>,
               rt_current_price = hd_current_price h,
               rt_value_difference =
                 total_value * target_weight_of target_allocation (hd_symbol h)
                   - hd_current_value h\<rparr>)"
  using assms
proof (induction holdings arbitrary: trades)
  case Nil
  then show ?case by simp
next
  case (Cons h hs)
  show ?case
  proof (cases "\<bar>total_value * target_weight_of target_allocation (hd_symbol h) - hd_current_value h\<bar> > 10")
    case True
    with Cons.prems Cons.IH show ?thesis
      by (fastforce simp: Let_def)
  next
    case False
    with Cons.prems Cons.IH show ?thesis
      by (fastforce simp: Let_def)
  qed
qed

text \<open>
  C7. Every trade proposed by \<open>execute_rebalancing\<close> has a value difference of more
  than 10 in absolute value; the value difference is the target value (total value times
  target weight) minus the current value of one of the summary's holdings; and for a
  positive current price the direction is BUY when the value difference is positive and
  SELL otherwise, and the quantity is the absolute value difference divided by the current
  price.
\<close>

theorem rebalancing_trades_above_minimum:
  assumes run: "execute_rebalancing d feed portfolio_id = Inr (RebalancingTrades trades)"
    and t: "t \<in> set trades"
    and price: "0 < rt_current_price t"
  shows "\<bar>rt_value_difference t\<bar> > 10
       \<and> rt_type t = (if rt_value_difference t > 0 then ''BUY'' else ''SELL'')
       \<and> rt_quantity t = \<bar>rt_value_difference t\<bar> / rt_current_price t
       \<and> (\<exists>summary portfolio h.
             get_portfolio_summary d feed portfolio_id = Inr summary
           \<and> get_portfolio d portfolio_id = Some portfolio
           \<and> h \<in> set (sm_holdings summary)
           \<and> rt_symbol t = hd_symbol h
           \<and> rt_current_price t = hd_current_price h
           \<and> rt_value_difference t
               = sm_total_value summary
                   * target_weight_of (get_target_allocation portfolio) (hd_symbol h)
                 - hd_current_value h)"
proof -
  from run obtain summary portfolio where
    s: "get_portfolio_summary d feed portfolio_id = Inr summary"
    and p: "get_portfolio d portfolio_id = Some portfolio"
    and tr: "trades = plan_trades (sm_total_value summary) (get_target_allocation portfolio)
                        (sm_holdings summary) []"
    by (auto simp: execute_rebalancing_def split: if_splits sum.splits option.splits)
  from t tr plan_trades_member [of t "sm_total_value summary" "get_target_allocation portfolio"
      "sm_holdings summary" "[]"]
  obtain h where h: "h \<in> set (sm_holdings summary)"
    and big: "\<bar>sm_total_value summary * target_weight_of (get_target_allocation portfolio) (hd_symbol h)
               - hd_current_value h\<bar> > 10"
    and teq: "t = \<lparr>rt_symbol = hd_symbol h,
               rt_exchange = hd_exchange h,
               rt_type =
                 (if (sm_total_value summary * target_weight_of (get_target_allocation portfolio) (hd_symbol h)
                        - hd_current_value h) / hd_current_price h > 0
                  then ''BUY'' else ''SELL''),
               rt_quantity =
                 \<bar>(sm_total_value summary * target_weight_of (get_target_allocation portfolio) (hd_symbol h)
                     - hd_current_value h) / hd_current_price h\<bar>,
               rt_current_price = hd_current_price h,
               rt_value_difference =
                 sm_total_value summary * target_weight_of (get_target_allocation portfolio) (hd_symbol h)
                   - hd_current_value h\<rparr>"
    by auto
  define vd where "vd = sm_total_value summary
      * target_weight_of (get_target_allocation portfolio) (hd_symbol h) - hd_current_value h"
  have pr: "0 < hd_current_price h"
    using price teq by simp
  have f: "rt_value_difference t = vd" "rt_current_price t = hd_current_price h"
    "rt_symbol t = hd_symbol h"
    "rt_quantity t = \<bar>vd / hd_current_price h\<bar>"
    "rt_type t = (if vd / hd_current_price h > 0 then ''BUY'' else ''SELL'')"
    using teq by (simp_all add: vd_def)
  have sgn: "(vd / hd_current_price h > 0) = (vd > 0)"
    using pr by (simp add: zero_less_divide_iff)
  have q: "\<bar>vd / hd_current_price h\<bar> = \<bar>vd\<bar> / hd_current_price h"
    using pr by simp
  have "\<bar>rt_value_difference t\<bar> > 10"
    using big f(1) by (simp add: vd_def)
  moreover have "rt_type t = (if rt_value_difference t > 0 then ''BUY'' else ''SELL'')"
    using f sgn by simp
  moreover have "rt_quantity t = \<bar>rt_value_difference t\<bar> / rt_current_price t"
    using f q by simp
  moreover have "\<exists>summary portfolio h.
             get_portfolio_summary d feed portfolio_id = Inr summary
           \<and> get_portfolio d portfolio_id = Some portfolio
           \<and> h \<in> set (sm_holdings summary)
           \<and> rt_symbol t = hd_symbol h
           \<and> rt_current_price t = hd_current_price h
           \<and> rt_value_difference t
               = sm_total_value summary
                   * target_weight_of (get_target_allocation portfolio) (hd_symbol h)
                 - hd_current_value h"
    using s p h f by (auto simp: vd_def)
  ultimately show ?thesis by blast
qed

text \<open>
  The planner on the scenario: BTC is sold for 425, ETH is bought for 87.5, that is
  0.875 units at 100.
\<close>

theorem rebalancing_trades_above_minimum_witness:
  "execute_rebalancing rebalance_db rebalance_feed 1
     = Inr (RebalancingTrades
         [\<lparr>rt_symbol = ''BTC/USDT'', rt_exchange = ''binance'', rt_type = ''SELL'',
            rt_quantity = 17 / 26, rt_current_price = 650, rt_value_difference = - 425\<rparr>,
          \<lparr>rt_symbol = ''ETH/USDT'', rt_exchange = ''binance'', rt_type = ''BUY'',
            rt_quantity = 7 / 8, rt_current_price = 100, rt_value_difference = 175 / 2\<rparr>])
   \<and> \<bar>175 / 2 :: real\<bar> > 10
   \<and> (7 / 8 :: real) = \<bar>175 / 2\<bar> / 100"
proof -
  have run: "execute_rebalancing rebalance_db rebalance_feed 1
     = Inr (RebalancingTrades
         [\<lparr>rt_symbol = ''BTC/USDT'', rt_exchange = ''binance'', rt_type = ''SELL'',
            rt_quantity = 17 / 26, rt_current_price = 650, rt_value_difference = - 425\<rparr>,
          \<lparr>rt_symbol = ''ETH/USDT'', rt_exchange = ''binance'', rt_type = ''BUY'',
            rt_quantity = 7 / 8, rt_current_price = 100, rt_value_difference = 175 / 2\<rparr>])"
    by (simp add: execute_rebalancing_def check_rebalancing_needed_def get_portfolio_def
        get_portfolio_summary_def rebalance_db_def rebalance_feed_def calculate_allocation_def
        get_target_allocation_def risk_allocations_def target_weight_of_def Let_def)
  have mem: "\<lparr>rt_symbol = ''ETH/USDT'', rt_exchange = ''binance'', rt_type = ''BUY'',
            rt_quantity = 7 / 8, rt_current_price = 100, rt_value_difference = 175 / 2\<rparr>
       \<in> set [\<lparr>rt_symbol = ''BTC/USDT'', rt_exchange = ''binance'', rt_type = ''SELL'',
            rt_quantity = 17 / 26, rt_current_price = 650, rt_value_difference = - 425\<rparr>,
          \<lparr>rt_symbol = ''ETH/USDT'', rt_exchange = ''binance'', rt_type = ''BUY'',
            rt_quantity = 7 / 8, rt_current_price = 100, rt_value_difference = 175 / 2\<rparr>]"
    by simp
  have price: "0 < rt_current_price \<lparr>rt_symbol = ''ETH/USDT'', rt_exchange = ''binance'',
            rt_type = ''BUY'', rt_quantity = 7 / 8, rt_current_price = 100,
            rt_value_difference = 175 / 2\<rparr>"
    by simp
  show ?thesis
    using run rebalancing_trades_above_minimum [OF run mem price] by simp
qed

section \<open>Properties of the Value-at-Risk simulation\<close>

text \<open>The two loops in closed form.\<close>

lemma trial_return_closed:
  "trial_return tv draws ps k acc =
     (acc + sum_list (map (\<lambda>j. (pos_quantity (ps ! j) * pos_current_price (ps ! j) / tv)
                                  * draws (k + j)) [0..<length ps]),
      k + length ps)"
proof (induction ps arbitrary: k acc)
  case Nil
  then show ?case by simp
next
  case (Cons p ps)
  show ?case
    by (simp add: Cons.IH Let_def map_upt_Suc del: upt_Suc)
qed

lemma simulate_returns_closed:
  "simulate_returns n tv draws ps k acc =
     acc @ map (\<lambda>i. sum_list (map (\<lambda>j. (pos_quantity (ps ! j) * pos_current_price (ps ! j) / tv)
                                  * draws (k + i * length ps + j)) [0..<length ps])) [0..<n]"
proof (induction n arbitrary: k acc)
  case 0
  then show ?case by simp
next
  case (Suc n)
  show ?case
    by (simp add: trial_return_closed Suc.IH map_upt_Suc add.assoc del: upt_Suc)
qed

lemma simulate_returns_spec:
  "simulate_returns 1000 tv draws ps 0 [] = spec_portfolio_returns tv draws ps"
  by (simp add: simulate_returns_closed spec_portfolio_returns_def weighted_draws_def)

text \<open>
  A percentile is never below the smallest element, so the tail at or below it is not
  empty.
\<close>

lemma np_percentile_above_some_element:
  assumes "np_percentile a q = Inr v"
  shows "\<exists>x \<in> set a. x \<le> v"
proof -
  from assms have q: "0 \<le> q" "q \<le> 100" and a: "a \<noteq> []"
    by (auto simp: np_percentile_def split: if_splits)
  define s where "s = sort a"
  define n where "n = length s"
  define vi where "vi = (real n - 1) * (q / 100)"
  define previous where "previous = nat \<lfloor>vi\<rfloor>"
  define nxt where "nxt = min (previous + 1) (n - 1)"
  have n: "0 < n" using a by (simp add: n_def s_def)
  have v: "v = s ! previous + (vi - real previous) * (s ! nxt - s ! previous)"
    using assms q a
    by (simp add: np_percentile_def Let_def s_def n_def vi_def previous_def nxt_def)
  have vi0: "0 \<le> vi" using n q by (simp add: vi_def)
  have vile: "vi \<le> real n - 1"
  proof -
    have "(real n - 1) * (q / 100) \<le> (real n - 1) * 1"
      using n q by (intro mult_left_mono) auto
    then show ?thesis by (simp add: vi_def)
  qed
  have fl: "real previous = of_int \<lfloor>vi\<rfloor>"
    using vi0 by (simp add: previous_def)
  have gamma: "0 \<le> vi - real previous"
    unfolding fl by linarith
  have "\<lfloor>vi\<rfloor> \<le> int n - 1"
    using vile by (simp add: floor_le_iff) linarith
  then have prev: "previous \<le> n - 1"
    using n by (simp add: previous_def)
  have pn: "previous \<le> nxt" using prev by (simp add: nxt_def)
  have nn: "nxt < n" using n by (simp add: nxt_def)
  have "sorted s" by (simp add: s_def)
  then have "s ! previous \<le> s ! nxt"
    using pn nn by (simp add: sorted_nth_mono n_def)
  then have "s ! previous \<le> v"
    using gamma by (simp add: v)
  moreover have "s ! previous \<in> set a"
  proof -
    have "previous < length s" using pn nn by (simp add: n_def)
    then have "s ! previous \<in> set s" by simp
    then show ?thesis by (simp add: s_def)
  qed
  ultimately show ?thesis by blast
qed

lemma np_percentile_defined:
  assumes "a \<noteq> []" "0 \<le> q" "q \<le> 100"
  shows "\<exists>v. np_percentile a q = Inr v"
  using assms by (simp add: np_percentile_def Let_def)

text \<open>
  C9. For a found portfolio with at least one active position and a nonzero total value,
  \<open>calculate_portfolio_var\<close> at confidence 0.95 succeeds; its 1000 simulated returns
  are the weighted sums of the draws described above; the reported VaR is the absolute
  value of their 5th percentile (as a percentage, and times the portfolio value as an
  amount); the returns at or below that percentile are not empty and the reported expected
  shortfall is the absolute value of their mean.
\<close>

theorem var_monte_carlo:
  assumes pf: "query_portfolio d portfolio_id = Some portfolio"
    and ps: "active_positions d portfolio_id \<noteq> []"
    and tv: "pf_total_value portfolio \<noteq> 0"
  shows "\<exists>report var.
           calculate_portfolio_var d draws portfolio_id 0.95 time_horizon = Inr (VarReport report)
         \<and> simulate_returns 1000 (pf_total_value portfolio) draws
               (active_positions d portfolio_id) 0 []
             = spec_portfolio_returns (pf_total_value portfolio) draws
                 (active_positions d portfolio_id)
         \<and> length (spec_portfolio_returns (pf_total_value portfolio) draws
                      (active_positions d portfolio_id)) = 1000
         \<and> np_percentile (spec_portfolio_returns (pf_total_value portfolio) draws
                            (active_positions d portfolio_id)) 5 = Inr var
         \<and> vr_var_percentage report = \<bar>var\<bar> * 100
         \<and> vr_var_amount report = \<bar>var * pf_total_value portfolio\<bar>
         \<and> filter (\<lambda>r. r \<le> var) (spec_portfolio_returns (pf_total_value portfolio) draws
                                     (active_positions d portfolio_id)) \<noteq> []
         \<and> vr_expected_shortfall_percentage report
             = \<bar>np_mean (filter (\<lambda>r. r \<le> var)
                   (spec_portfolio_returns (pf_total_value portfolio) draws
                      (active_positions d portfolio_id)))\<bar> * 100
         \<and> vr_expected_shortfall_amount report
             = \<bar>np_mean (filter (\<lambda>r. r \<le> var)
                   (spec_portfolio_returns (pf_total_value portfolio) draws
                      (active_positions d portfolio_id))) * pf_total_value portfolio\<bar>"
proof -
  define rets where "rets = spec_portfolio_returns (pf_total_value portfolio) draws
                      (active_positions d portfolio_id)"
  have len: "length rets = 1000"
    by (simp add: rets_def spec_portfolio_returns_def)
  then have ne: "rets \<noteq> []" by auto
  obtain var where var: "np_percentile rets 5 = Inr var"
    using np_percentile_defined [OF ne, of 5] by auto
  obtain x where "x \<in> set rets" "x \<le> var"
    using np_percentile_above_some_element [OF var] by blast
  then have tail: "filter (\<lambda>r. r \<le> var) rets \<noteq> []"
    by (auto simp: filter_empty_conv)
  have pct: "(1 - 0.95) * 100 = (5::real)" by simp
  have sim: "simulate_returns 1000 (pf_total_value portfolio) draws
               (active_positions d portfolio_id) 0 [] = rets"
    by (simp add: simulate_returns_spec rets_def)
  have run: "calculate_portfolio_var d draws portfolio_id 0.95 time_horizon =
      Inr (VarReport
        \<lparr>vr_var_percentage = \<bar>var\<bar> * 100,
         vr_var_amount = \<bar>var * pf_total_value portfolio\<bar>,
         vr_expected_shortfall_percentage = \<bar>np_mean (filter (\<lambda>r. r \<le> var) rets)\<bar> * 100,
         vr_expected_shortfall_amount =
           \<bar>np_mean (filter (\<lambda>r. r \<le> var) rets) * pf_total_value portfolio\<bar>,
         vr_confidence_level = 0.95,
         vr_time_horizon_days = time_horizon,
         vr_portfolio_value = pf_total_value portfolio\<rparr>)"
    using pf ps tv var tail
    by (simp add: calculate_portfolio_var_def Let_def sim)
  show ?thesis
    using run len var tail sim unfolding rets_def by simp
qed

text \<open>One active position and the stream \<open>0, 0.001, 0.002, \<dots>\<close>.\<close>

theorem var_monte_carlo_witness:
  "query_portfolio (risk_db 1000 ''active'' 80) 1
     = Some \<lparr>pf_id = 1, pf_user_id = 1, pf_total_value = 1000, pf_available_balance = 500\<rparr>
   \<and> active_positions (risk_db 1000 ''active'' 80) 1 \<noteq> []
   \<and> (\<exists>report var.
         calculate_portfolio_var (risk_db 1000 ''active'' 80) (\<lambda>i. real i / 1000) 1 0.95 1
           = Inr (VarReport report)
       \<and> simulate_returns 1000 1000 (\<lambda>i. real i / 1000)
             (active_positions (risk_db 1000 ''active'' 80) 1) 0 []
           = spec_portfolio_returns 1000 (\<lambda>i. real i / 1000)
               (active_positions (risk_db 1000 ''active'' 80) 1)
       \<and> np_percentile (spec_portfolio_returns 1000 (\<lambda>i. real i / 1000)
            (active_positions (risk_db 1000 ''active'' 80) 1)) 5 = Inr var
       \<and> vr_var_percentage report = \<bar>var\<bar> * 100
       \<and> vr_expected_shortfall_percentage report
           = \<bar>np_mean (filter (\<lambda>r. r \<le> var)
                 (spec_portfolio_returns 1000 (\<lambda>i. real i / 1000)
                    (active_positions (risk_db 1000 ''active'' 80) 1)))\<bar> * 100)"
proof -
  have q: "query_portfolio (risk_db 1000 ''active'' 80) 1
     = Some \<lparr>pf_id = 1, pf_user_id = 1, pf_total_value = 1000, pf_available_balance = 500\<rparr>"
    by (simp add: risk_db_def query_portfolio_def)
  have a: "active_positions (risk_db 1000 ''active'' 80) 1 \<noteq> []"
    by (simp add: risk_db_def active_positions_def)
  have v: "pf_total_value \<lparr>pf_id = 1, pf_user_id = 1, pf_total_value = 1000,
             pf_available_balance = 500\<rparr> \<noteq> 0"
    by simp
  show ?thesis
    using q a var_monte_carlo [OF q a v, of "\<lambda>i. real i / 1000" 1]
    by auto
qed

end
